theory Spec2Isabelle
  imports Main "HOL-Library.Sublist"
begin

section \<open>The gateway: tables, keys and requests\<close>

text \<open>
  The client keeps no data of its own: every hook reads and writes the tables declared in
  \<^verbatim>\<open>supabase/migrations/20260102163018_*.sql\<close>. A table is the list of its rows in
  insertion order. Identifiers are UUID strings; a timestamp is its position on the
  server's clock (an integer count of microseconds), what \<^verbatim>\<open>now()\<close> returns.

  A row carries the columns that the modelled code paths read, write, filter or order
  by. Columns that the gateway fills and that no modelled path consults (the surrogate
  \<^verbatim>\<open>id\<close> and \<^verbatim>\<open>joined_at\<close> of \<^verbatim>\<open>conversation_members\<close>, the \<^verbatim>\<open>id\<close> and
  \<^verbatim>\<open>viewed_at\<close> of \<^verbatim>\<open>story_views\<close>, \<^verbatim>\<open>created_at\<close> of \<^verbatim>\<open>contacts\<close>,
  \<^verbatim>\<open>bio\<close>, \<^verbatim>\<open>status\<close>, \<^verbatim>\<open>last_seen\<close> and \<^verbatim>\<open>theme\<close> of \<^verbatim>\<open>profiles\<close>) are left out.
\<close>

type_synonym uuid = string
type_synonym timestamp = int

record profile =
  p_id :: uuid
  p_username :: "string option"
  p_display_name :: "string option"
  p_avatar_url :: "string option"
  p_is_online :: "bool option"

record conversation =
  c_id :: uuid
  c_is_group :: bool
  c_name :: "string option"
  c_image_url :: "string option"
  c_created_by :: "uuid option"
  c_created_at :: timestamp
  c_updated_at :: timestamp

record conversation_member =
  cm_conversation_id :: uuid
  cm_user_id :: uuid
  cm_is_admin :: bool

record message =
  m_id :: uuid
  m_conversation_id :: uuid
  m_sender_id :: "uuid option"
  m_content :: "string option"
  m_message_type :: string
  m_file_url :: "string option"
  m_file_name :: "string option"
  m_is_read :: bool
  m_created_at :: timestamp
  m_updated_at :: timestamp

text \<open>\<^verbatim>\<open>expires_at\<close> has a default but no \<^verbatim>\<open>NOT NULL\<close>: it is nullable
  (\<^verbatim>\<open>string | null\<close> in \<^verbatim>\<open>types.ts\<close>).\<close>

record story =
  s_id :: uuid
  s_user_id :: uuid
  s_content :: "string option"
  s_image_url :: "string option"
  s_background_color :: "string option"
  s_expires_at :: "timestamp option"
  s_created_at :: timestamp

record story_view =
  sv_story_id :: uuid
  sv_viewer_id :: uuid

record contact =
  ct_id :: uuid
  ct_user_id :: uuid
  ct_contact_id :: uuid
  ct_status :: string

record db =
  profiles :: "profile list"
  conversations :: "conversation list"
  conversation_members :: "conversation_member list"
  messages :: "message list"
  stories :: "story list"
  story_views :: "story_view list"
  contacts :: "contact list"

text \<open>
  An error of a call is either the client's own \<^verbatim>\<open>new Error("Not authenticated")\<close> or
  an error object of the gateway, of which the client reads the \<^verbatim>\<open>code\<close> only.
\<close>

datatype error = NotAuthenticated | GatewayError string

text \<open>\<^verbatim>\<open>error.code\<close>: undefined on the client's own error.\<close>

fun error_code :: "error \<Rightarrow> string option" where
  "error_code NotAuthenticated = None"
| "error_code (GatewayError c) = Some c"

text \<open>
  What the platform decides for one request is a parameter of the model. \<open>fault\<close> is
  the gateway's refusal of the request for a reason that neither the tables nor the
  policies below decide (a transport failure, a foreign key): \<open>Some code\<close> refuses with
  that code, \<open>None\<close> lets the statement run against the table. \<open>new_id\<close> and \<open>now\<close>
  are the values of \<^verbatim>\<open>gen_random_uuid()\<close> and \<^verbatim>\<open>now()\<close> for the statement. Primary
  keys and \<^verbatim>\<open>UNIQUE\<close> constraints are decided by the tables: a violation is
  PostgreSQL's error 23505 and leaves the table as it was.
\<close>

record request =
  fault :: "string option"
  new_id :: uuid
  now :: timestamp

definition unique_violation :: string where
  "unique_violation = ''23505''"

text \<open>
  A read either returns its rows or, on a fault, \<^verbatim>\<open>data: null\<close>. \<open>ok\<close> says which.
\<close>

definition select_rows :: "bool \<Rightarrow> ('a \<Rightarrow> bool) \<Rightarrow> 'a list \<Rightarrow> 'a list option" where
  "select_rows ok P tbl = (if ok then Some (filter P tbl) else None)"

subsection \<open>Row-level policies\<close>

text \<open>
  The migration enables row-level security on every table, and the client is never the
  owner of a table: each of its statements runs under the policies of the migration. A
  statement that reads rows of a table (a \<^verbatim>\<open>SELECT\<close>, the \<^verbatim>\<open>RETURNING\<close> of
  \<^verbatim>\<open>insert().select()\<close>, the \<^verbatim>\<open>WHERE\<close> of an update or delete) is subject to the
  table's \<^verbatim>\<open>SELECT\<close> policy. Where the \<^verbatim>\<open>USING\<close> expression of that policy holds a
  subquery, the relation of the subquery is read under its own \<^verbatim>\<open>SELECT\<close> policy in
  turn. \<open>select_policy_reads\<close> lists, per table, the relations that the subqueries of
  its \<^verbatim>\<open>SELECT\<close> policy read:
  \<^item> \<^verbatim>\<open>conversations\<close>, \<^verbatim>\<open>conversation_members\<close> and \<^verbatim>\<open>messages\<close>:
    \<^verbatim>\<open>... IN (SELECT conversation_id FROM public.conversation_members WHERE user_id = auth.uid())\<close>;
  \<^item> \<^verbatim>\<open>story_views\<close>: \<^verbatim>\<open>story_id IN (SELECT id FROM public.stories ...) OR viewer_id = auth.uid()\<close>;
  \<^item> \<^verbatim>\<open>profiles\<close> and \<^verbatim>\<open>stories\<close>: \<^verbatim>\<open>true\<close>; \<^verbatim>\<open>contacts\<close>:
    \<^verbatim>\<open>user_id = auth.uid() OR contact_id = auth.uid()\<close>.
\<close>

datatype table =
  Profiles | Conversations | Conversation_members | Messages | Stories | Story_views | Contacts

fun select_policy_reads :: "table \<Rightarrow> table list" where
  "select_policy_reads Profiles = []"
| "select_policy_reads Conversations = [Conversation_members]"
| "select_policy_reads Conversation_members = [Conversation_members]"
| "select_policy_reads Messages = [Conversation_members]"
| "select_policy_reads Stories = []"
| "select_policy_reads Story_views = [Stories]"
| "select_policy_reads Contacts = []"

text \<open>
  PostgreSQL expands the policies before it runs the statement and refuses the statement
  with error 42P17 (infinite recursion detected in policy) when the expansion comes back
  to a relation it is already expanding. \<open>expanding\<close> is the chain of relations under
  expansion. There are seven tables, so a chain of more than seven has a repetition: the
  bound is never reached without one.
\<close>

fun infinite_recursion :: "nat \<Rightarrow> table list \<Rightarrow> table \<Rightarrow> bool" where
  "infinite_recursion 0 expanding t = True"
| "infinite_recursion (Suc n) expanding t =
     (t \<in> set expanding
      \<or> list_ex (\<lambda>u. infinite_recursion n (t # expanding) u) (select_policy_reads t))"

definition select_policy_error :: "table \<Rightarrow> string option" where
  "select_policy_error t = (if infinite_recursion 7 [] t then Some ''42P17'' else None)"

text \<open>A statement that a policy does not admit: PostgreSQL's error 42501.\<close>

definition policy_violation :: string where
  "policy_violation = ''42501''"

text \<open>
  A read of a table under its \<^verbatim>\<open>SELECT\<close> policy: \<^verbatim>\<open>data: null\<close> when the policy
  cannot be expanded, as on any other error. The reads of \<^verbatim>\<open>profiles\<close>,
  \<^verbatim>\<open>stories\<close>, \<^verbatim>\<open>story_views\<close> and \<^verbatim>\<open>contacts\<close>, whose policies expand and
  whose row conditions the client's own filters imply, are written with \<open>select_rows\<close>
  directly.
\<close>

definition select_from :: "table \<Rightarrow> bool \<Rightarrow> ('a \<Rightarrow> bool) \<Rightarrow> 'a list \<Rightarrow> 'a list option" where
  "select_from t ok P tbl =
     (case select_policy_error t of Some c \<Rightarrow> None | None \<Rightarrow> select_rows ok P tbl)"

text \<open>
  The embedded relation \<^verbatim>\<open>profiles!..._fkey(...)\<close>: the profile whose \<^verbatim>\<open>id\<close> is the
  referencing column, \<^verbatim>\<open>null\<close> when there is none.
\<close>

definition profile_of :: "db \<Rightarrow> uuid \<Rightarrow> profile option" where
  "profile_of d uid = find (\<lambda>p. p_id p = uid) (profiles d)"

text \<open>The user-facing notifications of the modelled handlers, one constructor per
  \<^verbatim>\<open>toast({...})\<close> call of the source; \<open>destructive\<close> is its \<^verbatim>\<open>variant\<close>.\<close>

datatype toast =
    Toast_already_requested
  | Toast_request_failed
  | Toast_request_sent
  | Toast_accept_failed
  | Toast_accepted
  | Toast_file_too_large
  | Toast_delete_failed

fun destructive :: "toast \<Rightarrow> bool" where
  "destructive Toast_already_requested = False"
| "destructive Toast_request_failed = True"
| "destructive Toast_request_sent = False"
| "destructive Toast_accept_failed = True"
| "destructive Toast_accepted = False"
| "destructive Toast_file_too_large = True"
| "destructive Toast_delete_failed = True"

section \<open>Story viewer (\<^verbatim>\<open>StoryViewer\<close>)\<close>

text \<open>The embedded author columns \<^verbatim>\<open>(id, username, display_name, avatar_url)\<close>:
  interface \<^verbatim>\<open>StoryUser\<close>.\<close>

record StoryUser =
  su_id :: uuid
  su_username :: "string option"
  su_display_name :: "string option"
  su_avatar_url :: "string option"

definition story_user_of :: "profile \<Rightarrow> StoryUser" where
  "story_user_of p =
     \<lparr>su_id = p_id p, su_username = p_username p,
      su_display_name = p_display_name p, su_avatar_url = p_avatar_url p\<rparr>"

text \<open>A fetched story: the row and its embedded \<^verbatim>\<open>user\<close>.\<close>

record story_row = story +
  s_user :: "StoryUser option"

text \<open>
  The props and the state of the viewer. The callbacks \<^verbatim>\<open>onPrevUser\<close> and
  \<^verbatim>\<open>onNextUser\<close> are optional: the props say whether each is provided, and a call of a
  callback is an entry of the trace the handler returns. \<open>currentIndex\<close> and \<open>progress\<close>
  are JavaScript numbers; every value they take here is an integer of small magnitude,
  on which the arithmetic of doubles is exact.
\<close>

record viewer_props =
  vp_stories :: "story_row list"
  vp_user :: StoryUser
  vp_onPrevUser :: bool
  vp_onNextUser :: bool

record viewer_state =
  currentIndex :: int
  progress :: int
  isPaused :: bool

datatype callback = OnClose | OnPrevUser | OnNextUser

definition STORY_DURATION :: int where
  "STORY_DURATION = 5000"

definition goToNext :: "viewer_props \<Rightarrow> viewer_state \<Rightarrow> viewer_state \<times> callback list" where
  "goToNext props st =
     (if currentIndex st < int (length (vp_stories props)) - 1
      then (st\<lparr>currentIndex := currentIndex st + 1, progress := 0\<rparr>, [])
      else if vp_onNextUser props then (st, [OnNextUser])
      else (st, [OnClose]))"

definition goToPrev :: "viewer_props \<Rightarrow> viewer_state \<Rightarrow> viewer_state \<times> callback list" where
  "goToPrev props st =
     (if currentIndex st > 0
      then (st\<lparr>currentIndex := currentIndex st - 1, progress := 0\<rparr>, [])
      else if vp_onPrevUser props then (st, [OnPrevUser])
      else (st, []))"

text \<open>
  One firing of the 100 ms interval. The interval exists only while the viewer is not
  paused. The updater adds \<^verbatim>\<open>100 / (STORY_DURATION / 100)\<close>; at 100 or more it calls
  \<^verbatim>\<open>goToNext()\<close> and returns 0.
\<close>

definition timer_tick :: "viewer_props \<Rightarrow> viewer_state \<Rightarrow> viewer_state \<times> callback list" where
  "timer_tick props st =
     (if isPaused st then (st, [])
      else
        let newProgress = progress st + 100 div (STORY_DURATION div 100) in
        if newProgress \<ge> 100
        then (case goToNext props st of (st', cbs) \<Rightarrow> (st'\<lparr>progress := 0\<rparr>, cbs))
        else (st\<lparr>progress := newProgress\<rparr>, []))"






section \<open>Chat attachments (\<^verbatim>\<open>ChatView.handleFileSelect\<close>)\<close>

record File =
  f_name :: string
  f_size :: nat
  f_type :: string

record chat_state =
  newMessage :: string
  sending :: bool
  showEmojiPicker :: bool
  selectedFile :: "File option"

text \<open>
  What a handler of the chat view does besides updating its state: notifications and
  requests to the gateway, in order.
\<close>

datatype chat_effect =
    ShowToast toast
  | Upload File
  | InsertMessage string

text \<open>\<^verbatim>\<open>e.target.files?.[0]\<close>: undefined when the list is null or empty.\<close>

definition first_file :: "File list option \<Rightarrow> File option" where
  "first_file files = (case files of None \<Rightarrow> None | Some [] \<Rightarrow> None | Some (f # _) \<Rightarrow> Some f)"

definition handleFileSelect :: "File list option \<Rightarrow> chat_state \<Rightarrow> chat_state \<times> chat_effect list" where
  "handleFileSelect files st =
     (case first_file files of
        None \<Rightarrow> (st, [])
      | Some f \<Rightarrow>
          if f_size f > 10 * 1024 * 1024 then (st, [ShowToast Toast_file_too_large])
          else (st\<lparr>selectedFile := Some f\<rparr>, []))"



section \<open>Stories listing (\<^verbatim>\<open>StoriesView.fetchStories\<close>)\<close>

record GroupedStories =
  gs_user :: StoryUser
  gs_stories :: "story_row list"
  hasViewed :: bool

record stories_state =
  groupedStories :: "GroupedStories list"
  myStories :: "story_row list"
  stories_loading :: bool

text \<open>\<^verbatim>\<open>.gt("expires_at", now)\<close>: a comparison with \<^verbatim>\<open>NULL\<close> selects nothing.\<close>

definition active :: "timestamp \<Rightarrow> 'a story_scheme \<Rightarrow> bool" where
  "active t s = (case s_expires_at s of None \<Rightarrow> False | Some e \<Rightarrow> e > t)"

definition join_story :: "db \<Rightarrow> story \<Rightarrow> story_row" where
  "join_story d s =
     story.extend s (story_row.fields (map_option story_user_of (profile_of d (s_user_id s))))"

text \<open>
  The first query: the stories that expire after the client's clock \<open>t\<close>
  (\<^verbatim>\<open>new Date().toISOString()\<close>), each with its author, newest first. Rows of equal
  \<^verbatim>\<open>created_at\<close>, whose order PostgreSQL leaves open, keep the order of the table.
\<close>

definition select_stories :: "bool \<Rightarrow> timestamp \<Rightarrow> db \<Rightarrow> story_row list option" where
  "select_stories ok t d =
     map_option (\<lambda>rows. map (join_story d) (sort_key (\<lambda>s. - s_created_at s) rows))
       (select_rows ok (active t) (stories d))"

text \<open>
  \<^verbatim>\<open>grouped: Record<string, GroupedStories>\<close> is an object keyed by the author's id;
  \<^verbatim>\<open>Object.values\<close> lists it in the order in which the keys were added (the keys are
  UUIDs, never array indices). It is an association list in that order. \<open>group_add\<close> is
  the body of the \<^verbatim>\<open>forEach\<close>.
\<close>

definition group_add :: "story_row \<Rightarrow> (uuid \<times> GroupedStories) list \<Rightarrow> (uuid \<times> GroupedStories) list" where
  "group_add story grouped =
     (case s_user story of
        None \<Rightarrow> grouped
      | Some u \<Rightarrow>
          let grouped' =
            (if map_of grouped (s_user_id story) = None
             then grouped @ [(s_user_id story, \<lparr>gs_user = u, gs_stories = [], hasViewed = False\<rparr>)]
             else grouped)
          in map (\<lambda>(k, g). if k = s_user_id story
                            then (k, g\<lparr>gs_stories := gs_stories g @ [story]\<rparr>) else (k, g))
               grouped')"

text \<open>The second query: the ids, among \<open>storyIds\<close>, of the stories the user has viewed.\<close>

definition select_views :: "bool \<Rightarrow> uuid \<Rightarrow> uuid list \<Rightarrow> db \<Rightarrow> uuid list option" where
  "select_views ok uid storyIds d =
     map_option (map sv_story_id)
       (select_rows ok (\<lambda>v. sv_viewer_id v = uid \<and> sv_story_id v \<in> set storyIds) (story_views d))"

definition mark_groups :: "uuid list \<Rightarrow> (uuid \<times> GroupedStories) list \<Rightarrow> (uuid \<times> GroupedStories) list" where
  "mark_groups viewedIds grouped =
     map (\<lambda>(k, g). (k, g\<lparr>hasViewed := list_all (\<lambda>s. s_id s \<in> set viewedIds) (gs_stories g)\<rparr>))
       grouped"

text \<open>
  \<open>fetchStories user t ok_stories ok_views d st\<close>: the state after the fetch. Without a
  user nothing happens; without data from the first query only \<open>loading\<close> is reset. The
  comparator of the final \<^verbatim>\<open>sort\<close> orders by \<open>hasViewed\<close>, false first, and the
  sort is stable.
\<close>

definition fetchStories ::
  "uuid option \<Rightarrow> timestamp \<Rightarrow> bool \<Rightarrow> bool \<Rightarrow> db \<Rightarrow> stories_state \<Rightarrow> stories_state" where
  "fetchStories user t ok_stories ok_views d st =
     (case user of
        None \<Rightarrow> st
      | Some uid \<Rightarrow>
          (case select_stories ok_stories t d of
             None \<Rightarrow> st\<lparr>stories_loading := False\<rparr>
           | Some rows \<Rightarrow>
               let mine = filter (\<lambda>s. s_user_id s = uid) rows;
                   othersStories = filter (\<lambda>s. s_user_id s \<noteq> uid) rows;
                   grouped = fold group_add othersStories [];
                   storyIds = map s_id othersStories;
                   grouped' =
                     (if length storyIds > 0
                      then mark_groups
                             (case select_views ok_views uid storyIds d of
                                None \<Rightarrow> [] | Some ids \<Rightarrow> ids)
                             grouped
                      else grouped);
                   sortedGroups = sort_key hasViewed (map snd grouped')
               in \<lparr>groupedStories = sortedGroups, myStories = mine, stories_loading = False\<rparr>))"

text \<open>The stories grouped under a key, none when the key is absent.\<close>

definition stories_for :: "uuid \<Rightarrow> (uuid \<times> GroupedStories) list \<Rightarrow> story_row list" where
  "stories_for k grouped = (case map_of grouped k of None \<Rightarrow> [] | Some g \<Rightarrow> gs_stories g)"

section \<open>Contacts (\<^verbatim>\<open>AddContactDialog.handleSendRequest\<close>, \<^verbatim>\<open>ContactsView\<close>)\<close>

text \<open>
  \<^verbatim>\<open>insert({ user_id, contact_id, status: "pending" })\<close> against the primary key and
  \<^verbatim>\<open>UNIQUE(user_id, contact_id)\<close>. The constraint is on the ordered pair: a row
  \<open>(b, a)\<close> does not conflict with a row \<open>(a, b)\<close>.
\<close>

definition same_pair :: "uuid \<Rightarrow> uuid \<Rightarrow> contact \<Rightarrow> bool" where
  "same_pair uid cid c = (ct_user_id c = uid \<and> ct_contact_id c = cid)"

definition insert_contact :: "request \<Rightarrow> uuid \<Rightarrow> uuid \<Rightarrow> db \<Rightarrow> error + db" where
  "insert_contact rq uid cid d =
     (case fault rq of
        Some c \<Rightarrow> Inl (GatewayError c)
      | None \<Rightarrow>
          if list_ex (\<lambda>c. ct_id c = new_id rq \<or> same_pair uid cid c) (contacts d)
          then Inl (GatewayError unique_violation)
          else Inr (d\<lparr>contacts := contacts d @
                 [\<lparr>ct_id = new_id rq, ct_user_id = uid, ct_contact_id = cid,
                   ct_status = ''pending''\<rparr>]\<rparr>))"

text \<open>The dialog's state, and what one run of \<^verbatim>\<open>handleSendRequest\<close> leaves: the
  tables, the state, the notification shown and whether \<^verbatim>\<open>onAdded\<close> was called.\<close>

record dialog_state =
  users :: "profile list"
  sendingTo :: "uuid option"

record send_result =
  sr_db :: db
  sr_state :: dialog_state
  sr_toast :: "toast option"
  sr_onAdded :: bool

definition handleSendRequest :: "uuid option \<Rightarrow> uuid \<Rightarrow> request \<Rightarrow> db \<Rightarrow> dialog_state \<Rightarrow> send_result" where
  "handleSendRequest user profileId rq d st =
     (case user of
        None \<Rightarrow> \<lparr>sr_db = d, sr_state = st, sr_toast = None, sr_onAdded = False\<rparr>
      | Some uid \<Rightarrow>
          (case insert_contact rq uid profileId d of
             Inl e \<Rightarrow>
               \<lparr>sr_db = d, sr_state = st\<lparr>sendingTo := None\<rparr>,
                sr_toast = Some (if error_code e = Some ''23505'' then Toast_already_requested
                                 else Toast_request_failed),
                sr_onAdded = False\<rparr>
           | Inr d' \<Rightarrow>
               \<lparr>sr_db = d',
                sr_state = st\<lparr>users := filter (\<lambda>u. p_id u \<noteq> profileId) (users st),
                              sendingTo := None\<rparr>,
                sr_toast = Some Toast_request_sent, sr_onAdded = True\<rparr>))"

text \<open>The number of \<^verbatim>\<open>contacts\<close> rows of an ordered pair.\<close>

definition count_pair :: "uuid \<Rightarrow> uuid \<Rightarrow> db \<Rightarrow> nat" where
  "count_pair uid cid d = length (filter (same_pair uid cid) (contacts d))"

text \<open>
  A fetched contact: the row with the embedded profile of its \<^verbatim>\<open>contact_id\<close>
  (\<open>contact_profile\<close>) or of its \<^verbatim>\<open>user_id\<close> (\<open>user_profile\<close>), whichever the query
  selects; the other is undefined.
\<close>

record contact_row = contact +
  contact_profile :: "profile option"
  user_profile :: "profile option"

definition with_contact_profile :: "db \<Rightarrow> contact \<Rightarrow> contact_row" where
  "with_contact_profile d c =
     contact.extend c (contact_row.fields (profile_of d (ct_contact_id c)) None)"

definition with_user_profile :: "db \<Rightarrow> contact \<Rightarrow> contact_row" where
  "with_user_profile d c =
     contact.extend c (contact_row.fields None (profile_of d (ct_user_id c)))"

record contacts_state =
  cs_contacts :: "contact_row list"
  pendingReceived :: "contact_row list"
  pendingSent :: "contact_row list"
  cs_loading :: bool

text \<open>Which of the four queries of \<^verbatim>\<open>fetchContacts\<close> return data.\<close>

record contacts_reads =
  ok_acceptedAsUser :: bool
  ok_acceptedAsContact :: bool
  ok_received :: bool
  ok_sent :: bool

text \<open>\<^verbatim>\<open>data || []\<close>.\<close>

definition or_empty :: "'a list option \<Rightarrow> 'a list" where
  "or_empty data = (case data of None \<Rightarrow> [] | Some rows \<Rightarrow> rows)"

definition fetchContacts :: "uuid option \<Rightarrow> contacts_reads \<Rightarrow> db \<Rightarrow> contacts_state \<Rightarrow> contacts_state" where
  "fetchContacts user ok d st =
     (case user of
        None \<Rightarrow> st
      | Some uid \<Rightarrow>
          let acceptedAsUser =
                map_option (map (with_contact_profile d))
                  (select_rows (ok_acceptedAsUser ok)
                     (\<lambda>c. ct_user_id c = uid \<and> ct_status c = ''accepted'') (contacts d));
              acceptedAsContact =
                map_option (map (with_user_profile d))
                  (select_rows (ok_acceptedAsContact ok)
                     (\<lambda>c. ct_contact_id c = uid \<and> ct_status c = ''accepted'') (contacts d));
              allAccepted =
                or_empty acceptedAsUser @
                map (\<lambda>c. c\<lparr>contact_profile := user_profile c\<rparr>) (or_empty acceptedAsContact);
              received =
                map_option (map (with_user_profile d))
                  (select_rows (ok_received ok)
                     (\<lambda>c. ct_contact_id c = uid \<and> ct_status c = ''pending'') (contacts d));
              sent =
                map_option (map (with_contact_profile d))
                  (select_rows (ok_sent ok)
                     (\<lambda>c. ct_user_id c = uid \<and> ct_status c = ''pending'') (contacts d))
          in \<lparr>cs_contacts = allAccepted, pendingReceived = or_empty received,
              pendingSent = or_empty sent, cs_loading = False\<rparr>)"

text \<open>
  \<^verbatim>\<open>handleAccept\<close>: \<^verbatim>\<open>update({ status: "accepted" }).eq("id", contactId)\<close>, then a
  notification and, on success, a new fetch. The update policy of the table lets either
  party of a row update it and hides every other row from the statement.
\<close>

definition update_contact_status :: "uuid option \<Rightarrow> uuid \<Rightarrow> string \<Rightarrow> request \<Rightarrow> db \<Rightarrow> error + db" where
  "update_contact_status user contactId status rq d =
     (case fault rq of
        Some c \<Rightarrow> Inl (GatewayError c)
      | None \<Rightarrow>
          Inr (d\<lparr>contacts :=
                 map (\<lambda>c. if ct_id c = contactId
                             \<and> (user = Some (ct_user_id c) \<or> user = Some (ct_contact_id c))
                          then c\<lparr>ct_status := status\<rparr> else c)
                   (contacts d)\<rparr>))"

definition handleAccept ::
  "uuid option \<Rightarrow> uuid \<Rightarrow> request \<Rightarrow> contacts_reads \<Rightarrow> db \<Rightarrow> contacts_state \<Rightarrow> db \<times> contacts_state \<times> toast" where
  "handleAccept user contactId rq ok d st =
     (case update_contact_status user contactId ''accepted'' rq d of
        Inl e \<Rightarrow> (d, st, Toast_accept_failed)
      | Inr d' \<Rightarrow> (d', fetchContacts user ok d' st, Toast_accepted))"

text \<open>How many entries of a contact list show the profile of \<open>uid\<close>.\<close>

definition count_profile :: "uuid \<Rightarrow> contact_row list \<Rightarrow> nat" where
  "count_profile uid rows =
     length (filter (\<lambda>r. map_option p_id (contact_profile r) = Some uid) rows)"

section \<open>Messages of a conversation (\<^verbatim>\<open>useMessages\<close>, \<^verbatim>\<open>ChatView.handleDeleteMessage\<close>)\<close>

text \<open>
  A fetched message: the row with its embedded \<^verbatim>\<open>sender\<close>, the same four profile
  columns as a story's author; \<^verbatim>\<open>null\<close> when \<^verbatim>\<open>sender_id\<close> is.
\<close>

record message_row = message +
  sender :: "StoryUser option"


text \<open>
  The row condition of the \<^verbatim>\<open>SELECT\<close> policies of \<^verbatim>\<open>messages\<close> and
  \<^verbatim>\<open>conversations\<close>: the user is a member of the conversation. It is what a statement
  would see of these tables if their policies could be expanded; the delete policy of
  \<^verbatim>\<open>messages\<close> further restricts a delete to the rows the user sent.
\<close>

definition is_member :: "db \<Rightarrow> uuid \<Rightarrow> uuid \<Rightarrow> bool" where
  "is_member d uid cid =
     list_ex (\<lambda>cm. cm_conversation_id cm = cid \<and> cm_user_id cm = uid) (conversation_members d)"








section \<open>Conversations (\<^verbatim>\<open>useConversations\<close>)\<close>

text \<open>A member with its embedded profile, and a conversation with the details that
  \<^verbatim>\<open>fetchConversations\<close> attaches: interface \<^verbatim>\<open>Conversation\<close>.\<close>

record member_row = conversation_member +
  cm_profile :: "profile option"

record Conversation = conversation +
  members :: "member_row list"
  last_message :: "message option"
  other_user :: "profile option"

record conversations_state =
  uc_conversations :: "Conversation list"
  uc_loading :: bool

definition join_profile :: "db \<Rightarrow> conversation_member \<Rightarrow> member_row" where
  "join_profile d m =
     conversation_member.extend m (member_row.fields (profile_of d (cm_user_id m)))"

text \<open>Which queries of \<^verbatim>\<open>fetchConversations\<close> return data; the last-message query
  runs once per conversation.\<close>

record conversations_reads =
  ok_memberData :: bool
  ok_convData :: bool
  ok_allMembers :: bool
  ok_lastMsg :: "uuid \<Rightarrow> bool"

text \<open>
  \<^verbatim>\<open>.order("created_at", { ascending: false }).limit(1).maybeSingle()\<close>: the newest
  message of the conversation, if there is one.
\<close>

definition select_last_message :: "bool \<Rightarrow> uuid \<Rightarrow> uuid \<Rightarrow> db \<Rightarrow> message option" where
  "select_last_message ok uid cid d =
     (case select_from Messages ok
             (\<lambda>m. m_conversation_id m = cid \<and> is_member d uid (m_conversation_id m))
             (messages d) of
        None \<Rightarrow> None
      | Some rows \<Rightarrow>
          (case sort_key (\<lambda>m. - m_created_at m) rows of [] \<Rightarrow> None | m # _ \<Rightarrow> Some m))"

text \<open>The body of the \<^verbatim>\<open>convData.map\<close>: the details of one conversation.\<close>

definition with_details :: "uuid \<Rightarrow> conversations_reads \<Rightarrow> db \<Rightarrow> member_row list option \<Rightarrow> conversation \<Rightarrow> Conversation" where
  "with_details uid ok d allMembers conv =
     (let members = (case allMembers of
                       None \<Rightarrow> []
                     | Some ms \<Rightarrow> filter (\<lambda>m. cm_conversation_id m = c_id conv) ms);
          lastMsg = select_last_message (ok_lastMsg ok (c_id conv)) uid (c_id conv) d;
          other_user =
            (if \<not> c_is_group conv \<and> length members > 0
             then (case find (\<lambda>m. cm_user_id m \<noteq> uid) members of
                     None \<Rightarrow> None
                   | Some otherMember \<Rightarrow> cm_profile otherMember)
             else None)
      in conversation.extend conv (Conversation.fields members lastMsg other_user))"

text \<open>
  \<^verbatim>\<open>fetchConversations\<close>: the ids of the user's conversations, the conversations with
  these ids by \<^verbatim>\<open>updated_at\<close> descending (rows of equal \<^verbatim>\<open>updated_at\<close> keep the order
  of the table), their members, and the details of each. \<^verbatim>\<open>updated_at\<close> is always a
  value of the server's clock: the default \<^verbatim>\<open>now()\<close> on insert, and on every update the
  trigger \<^verbatim>\<open>update_conversations_updated_at\<close> overwrites what the client sent.
\<close>

definition fetchConversations ::
  "uuid option \<Rightarrow> conversations_reads \<Rightarrow> db \<Rightarrow> conversations_state \<Rightarrow> conversations_state" where
  "fetchConversations user ok d st =
     (case user of
        None \<Rightarrow> st\<lparr>uc_conversations := [], uc_loading := False\<rparr>
      | Some uid \<Rightarrow>
          (case select_from Conversation_members (ok_memberData ok) (\<lambda>m. cm_user_id m = uid)
                  (conversation_members d) of
             None \<Rightarrow> st\<lparr>uc_conversations := [], uc_loading := False\<rparr>
           | Some memberData \<Rightarrow>
               if length memberData = 0
               then st\<lparr>uc_conversations := [], uc_loading := False\<rparr>
               else
                 let conversationIds = map cm_conversation_id memberData in
                 (case map_option (sort_key (\<lambda>c. - c_updated_at c))
                         (select_from Conversations (ok_convData ok)
                            (\<lambda>c. c_id c \<in> set conversationIds) (conversations d)) of
                    None \<Rightarrow> st\<lparr>uc_conversations := [], uc_loading := False\<rparr>
                  | Some convData \<Rightarrow>
                      let allMembers =
                            map_option (map (join_profile d))
                              (select_from Conversation_members (ok_allMembers ok)
                                 (\<lambda>m. cm_conversation_id m \<in> set conversationIds)
                                 (conversation_members d))
                      in st\<lparr>uc_conversations := map (with_details uid ok d allMembers) convData,
                            uc_loading := False\<rparr>)))"

text \<open>
  \<^verbatim>\<open>insert({ is_group, name: isGroup ? name : null, created_by }).select().single()\<close>
  against the primary key; the other columns take their defaults, and the result is the
  new row. The insert policy of \<^verbatim>\<open>conversations\<close> is \<^verbatim>\<open>WITH CHECK (true)\<close>, but
  \<^verbatim>\<open>.select()\<close> makes the statement an \<^verbatim>\<open>INSERT ... RETURNING\<close>, which has to pass
  the \<^verbatim>\<open>SELECT\<close> policy of the table on the new row: the policy must expand, and the
  user must be a member of the new conversation, or the statement is refused and no row
  is inserted.
\<close>

definition new_conversation :: "request \<Rightarrow> uuid \<Rightarrow> bool \<Rightarrow> string option \<Rightarrow> conversation" where
  "new_conversation rq uid isGroup name =
     \<lparr>c_id = new_id rq, c_is_group = isGroup, c_name = (if isGroup then name else None),
      c_image_url = None, c_created_by = Some uid, c_created_at = now rq, c_updated_at = now rq\<rparr>"

definition insert_conversation ::
  "request \<Rightarrow> uuid \<Rightarrow> bool \<Rightarrow> string option \<Rightarrow> db \<Rightarrow> error + conversation \<times> db" where
  "insert_conversation rq uid isGroup name d =
     (case fault rq of
        Some c \<Rightarrow> Inl (GatewayError c)
      | None \<Rightarrow>
          (case select_policy_error Conversations of
             Some c \<Rightarrow> Inl (GatewayError c)
           | None \<Rightarrow>
               if list_ex (\<lambda>c. c_id c = new_id rq) (conversations d)
               then Inl (GatewayError unique_violation)
               else if \<not> is_member d uid (new_id rq)
               then Inl (GatewayError policy_violation)
               else Inr (new_conversation rq uid isGroup name,
                         d\<lparr>conversations :=
                             conversations d @ [new_conversation rq uid isGroup name]\<rparr>)))"

text \<open>
  One insert of several rows against \<^verbatim>\<open>UNIQUE(conversation_id, user_id)\<close>: the
  statement fails as a whole when two of its rows, or one of them and a row of the table,
  have the same pair. It has no \<^verbatim>\<open>.select()\<close>, and the insert policy of
  \<^verbatim>\<open>conversation_members\<close> is \<^verbatim>\<open>WITH CHECK (true)\<close>.
\<close>

definition member_key :: "conversation_member \<Rightarrow> uuid \<times> uuid" where
  "member_key m = (cm_conversation_id m, cm_user_id m)"

definition insert_members :: "request \<Rightarrow> conversation_member list \<Rightarrow> db \<Rightarrow> error + db" where
  "insert_members rq rows d =
     (case fault rq of
        Some c \<Rightarrow> Inl (GatewayError c)
      | None \<Rightarrow>
          if distinct (map member_key rows)
             \<and> list_all (\<lambda>r. member_key r \<notin> set (map member_key (conversation_members d))) rows
          then Inr (d\<lparr>conversation_members := conversation_members d @ rows\<rparr>)
          else Inl (GatewayError unique_violation))"

text \<open>
  \<^verbatim>\<open>[...new Set(xs)]\<close>: the elements of \<open>xs\<close> in the order of their first occurrence.
\<close>

definition new_Set :: "'a list \<Rightarrow> 'a list" where
  "new_Set xs = fold (\<lambda>x acc. if x \<in> set acc then acc else acc @ [x]) xs []"

definition new_members :: "uuid \<Rightarrow> uuid \<Rightarrow> uuid list \<Rightarrow> conversation_member list" where
  "new_members cid uid memberIds =
     map (\<lambda>i. \<lparr>cm_conversation_id = cid, cm_user_id = i, cm_is_admin = (i = uid)\<rparr>)
       (new_Set (uid # memberIds))"

text \<open>
  \<^verbatim>\<open>createConversation\<close>, with the request of each of its two writes: the tables and
  the hook's state it leaves, and \<open>Inl error\<close> or \<open>Inr data\<close> for the object it returns.
\<close>

definition createConversation ::
  "uuid option \<Rightarrow> uuid list \<Rightarrow> bool \<Rightarrow> string option \<Rightarrow> request \<Rightarrow> request
     \<Rightarrow> conversations_reads \<Rightarrow> db \<Rightarrow> conversations_state
     \<Rightarrow> db \<times> conversations_state \<times> (error + conversation)" where
  "createConversation user memberIds isGroup name rq_conv rq_members ok d st =
     (case user of
        None \<Rightarrow> (d, st, Inl NotAuthenticated)
      | Some uid \<Rightarrow>
          (case insert_conversation rq_conv uid isGroup name d of
             Inl convError \<Rightarrow> (d, st, Inl convError)
           | Inr (conv, d1) \<Rightarrow>
               (case insert_members rq_members (new_members (c_id conv) uid memberIds) d1 of
                  Inl membersError \<Rightarrow> (d1, st, Inl membersError)
                | Inr d2 \<Rightarrow> (d2, fetchConversations (Some uid) ok d2 st, Inr conv))))"

section \<open>Sample data\<close>

text \<open>Concrete inputs on which the theorems below are run.\<close>

definition sample_story :: "uuid \<Rightarrow> uuid \<Rightarrow> timestamp \<Rightarrow> timestamp \<Rightarrow> story_row" where
  "sample_story sid uid created expires =
     \<lparr>s_id = sid, s_user_id = uid, s_content = Some ''hello'', s_image_url = None,
      s_background_color = Some ''#1a1a2e'', s_expires_at = Some expires,
      s_created_at = created, s_user = None\<rparr>"

definition sample_viewer :: "bool \<Rightarrow> viewer_props" where
  "sample_viewer next =
     \<lparr>vp_stories = [sample_story ''s2'' ''bob'' 20 120, sample_story ''s1'' ''bob'' 10 110],
      vp_user = \<lparr>su_id = ''bob'', su_username = Some ''bob'', su_display_name = None,
                 su_avatar_url = None\<rparr>,
      vp_onPrevUser = False, vp_onNextUser = next\<rparr>"

definition big_file :: File where
  "big_file = \<lparr>f_name = ''film.mp4'', f_size = 10485761, f_type = ''video/mp4''\<rparr>"

definition limit_file :: File where
  "limit_file = \<lparr>f_name = ''scan.pdf'', f_size = 10485760, f_type = ''application/pdf''\<rparr>"

definition empty_chat :: chat_state where
  "empty_chat = \<lparr>newMessage = [], sending = False, showEmojiPicker = False, selectedFile = None\<rparr>"

definition reached :: request where
  "reached = \<lparr>fault = None, new_id = ''n1'', now = 100\<rparr>"


definition empty_db :: db where
  "empty_db = \<lparr>profiles = [], conversations = [], conversation_members = [], messages = [],
     stories = [], story_views = [], contacts = []\<rparr>"

definition sample_profile :: "uuid \<Rightarrow> profile" where
  "sample_profile uid =
     \<lparr>p_id = uid, p_username = Some uid, p_display_name = None, p_avatar_url = None,
      p_is_online = Some False\<rparr>"

definition sample_story_of :: "uuid \<Rightarrow> uuid \<Rightarrow> timestamp \<Rightarrow> timestamp \<Rightarrow> story" where
  "sample_story_of sid uid created expires =
     \<lparr>s_id = sid, s_user_id = uid, s_content = Some ''hello'', s_image_url = None,
      s_background_color = Some ''#1a1a2e'', s_expires_at = Some expires,
      s_created_at = created\<rparr>"

text \<open>Three users. Bob has two live stories, of which Alice has seen one; Carol has one
  live story, seen by Alice, and one that expired at 90.\<close>

definition stories_db :: db where
  "stories_db = empty_db
     \<lparr>profiles := [sample_profile ''alice'', sample_profile ''bob'', sample_profile ''carol''],
      stories := [sample_story_of ''s1'' ''bob'' 10 110, sample_story_of ''s0'' ''carol'' 5 90,
                  sample_story_of ''s2'' ''bob'' 20 120, sample_story_of ''s3'' ''carol'' 30 130,
                  sample_story_of ''s4'' ''alice'' 40 140],
      story_views := [\<lparr>sv_story_id = ''s3'', sv_viewer_id = ''alice''\<rparr>,
                      \<lparr>sv_story_id = ''s1'', sv_viewer_id = ''alice''\<rparr>,
                      \<lparr>sv_story_id = ''s2'', sv_viewer_id = ''carol''\<rparr>]\<rparr>"

definition no_stories :: stories_state where
  "no_stories = \<lparr>groupedStories = [], myStories = [], stories_loading = True\<rparr>"

definition alice_stories :: stories_state where
  "alice_stories = fetchStories (Some ''alice'') 100 True True stories_db no_stories"

definition request_with :: "uuid \<Rightarrow> request" where
  "request_with k = \<lparr>fault = None, new_id = k, now = 100\<rparr>"

definition all_reads :: contacts_reads where
  "all_reads = \<lparr>ok_acceptedAsUser = True, ok_acceptedAsContact = True, ok_received = True,
     ok_sent = True\<rparr>"

definition no_contacts :: contacts_state where
  "no_contacts = \<lparr>cs_contacts = [], pendingReceived = [], pendingSent = [], cs_loading = True\<rparr>"

definition empty_dialog :: dialog_state where
  "empty_dialog = \<lparr>users = [], sendingTo = None\<rparr>"

definition people_db :: db where
  "people_db = empty_db
     \<lparr>profiles := [sample_profile ''alice'', sample_profile ''bob'', sample_profile ''carol'']\<rparr>"

text \<open>Alice asks Bob and Bob accepts.\<close>

definition one_way_db :: db where
  "one_way_db =
     fst (handleAccept (Some ''bob'') ''k1'' reached all_reads
       (sr_db (handleSendRequest (Some ''alice'') ''bob'' (request_with ''k1'') people_db empty_dialog))
       no_contacts)"

text \<open>Alice and Bob each ask the other before either list is refreshed, and each then
  accepts the request received.\<close>

definition crossed_db :: db where
  "crossed_db =
     fst (handleAccept (Some ''alice'') ''k2'' reached all_reads
       (fst (handleAccept (Some ''bob'') ''k1'' reached all_reads
          (sr_db (handleSendRequest (Some ''bob'') ''alice'' (request_with ''k2'')
             (sr_db (handleSendRequest (Some ''alice'') ''bob'' (request_with ''k1'')
                people_db empty_dialog))
             empty_dialog))
          no_contacts))
       no_contacts)"

definition sample_message :: "uuid \<Rightarrow> uuid \<Rightarrow> uuid \<Rightarrow> timestamp \<Rightarrow> message" where
  "sample_message mid cid uid created =
     \<lparr>m_id = mid, m_conversation_id = cid, m_sender_id = Some uid, m_content = Some ''hi'',
      m_message_type = ''text'', m_file_url = None, m_file_name = None, m_is_read = False,
      m_created_at = created, m_updated_at = created\<rparr>"

text \<open>Alice and Bob in conversation \<open>c1\<close>, with one message each.\<close>

definition chat_db :: db where
  "chat_db = people_db
     \<lparr>conversations := [\<lparr>c_id = ''c1'', c_is_group = False, c_name = None, c_image_url = None,
         c_created_by = Some ''alice'', c_created_at = 5, c_updated_at = 20\<rparr>],
      conversation_members :=
        [\<lparr>cm_conversation_id = ''c1'', cm_user_id = ''alice'', cm_is_admin = True\<rparr>,
         \<lparr>cm_conversation_id = ''c1'', cm_user_id = ''bob'', cm_is_admin = False\<rparr>],
      messages := [sample_message ''m1'' ''c1'' ''alice'' 10, sample_message ''m2'' ''c1'' ''bob'' 20]\<rparr>"




definition all_conv_reads :: conversations_reads where
  "all_conv_reads = \<lparr>ok_memberData = True, ok_convData = True, ok_allMembers = True,
     ok_lastMsg = (\<lambda>_. True)\<rparr>"

definition no_conversations :: conversations_state where
  "no_conversations = \<lparr>uc_conversations = [], uc_loading = True\<rparr>"

text \<open>Alice, already in conversation \<open>c1\<close> with Bob, starts one with Carol at time 100.\<close>

definition alice_creates ::
  "request \<Rightarrow> db \<times> conversations_state \<times> (error + conversation)" where
  "alice_creates rq_members =
     createConversation (Some ''alice'') [''carol''] False None (request_with ''c2'') rq_members
       all_conv_reads chat_db no_conversations"


text \<open>Alice starts a group with Carol and lists herself among the invitees.\<close>

definition alice_creates_group :: "db \<times> conversations_state \<times> (error + conversation)" where
  "alice_creates_group =
     createConversation (Some ''alice'') [''alice'', ''carol'', ''alice''] True (Some ''team'')
       (request_with ''c2'') reached all_conv_reads chat_db no_conversations"

section \<open>The policies as shipped\<close>

text \<open>
  The \<^verbatim>\<open>SELECT\<close> policy of \<^verbatim>\<open>conversation_members\<close> reads
  \<^verbatim>\<open>conversation_members\<close>: it cannot be expanded, and neither can the policies of
  \<^verbatim>\<open>conversations\<close> and \<^verbatim>\<open>messages\<close>, which read it. The policies of the other
  tables expand.
\<close>

lemma shipped_select_policies:
  "select_policy_error Conversation_members = Some ''42P17''"
  "select_policy_error Conversations = Some ''42P17''"
  "select_policy_error Messages = Some ''42P17''"
  "select_policy_error Profiles = None"
  "select_policy_error Stories = None"
  "select_policy_error Story_views = None"
  "select_policy_error Contacts = None"
  by (simp_all add: select_policy_error_def eval_nat_numeral)

lemma select_from_refused:
  "select_from Conversation_members ok P tbl = None"
  "select_from Conversations ok Q tbl' = None"
  "select_from Messages ok R tbl'' = None"
  by (simp_all add: select_from_def shipped_select_policies)

section \<open>Story viewer: progression\<close>

lemma progress_step: "100 div (STORY_DURATION div 100) = 2"
  by (simp add: STORY_DURATION_def)

text \<open>
  C8. When the timer brings the progress to 100 or more, the viewer moves on: while
  another story follows in the sequence (\<open>currentIndex < length - 1\<close>) the index grows by
  one and the progress is 0; otherwise, whatever the length and the index, the
  next-user callback is called when it is provided and the close callback when it is
  not, the index stays and the progress is 0.
\<close>

theorem timer_tick_advances:
  assumes "\<not> isPaused st"
    and "progress st + 100 div (STORY_DURATION div 100) \<ge> 100"
  shows "timer_tick props st =
     (if currentIndex st < int (length (vp_stories props)) - 1
      then (st\<lparr>currentIndex := currentIndex st + 1, progress := 0\<rparr>, [])
      else if vp_onNextUser props then (st\<lparr>progress := 0\<rparr>, [OnNextUser])
      else (st\<lparr>progress := 0\<rparr>, [OnClose]))"
  using assms by (simp add: timer_tick_def goToNext_def Let_def)

theorem timer_tick_advances_witness:
  "\<not> isPaused \<lparr>currentIndex = 0, progress = 98, isPaused = False\<rparr>
   \<and> 98 + 100 div (STORY_DURATION div 100) \<ge> 100
   \<and> timer_tick (sample_viewer True) \<lparr>currentIndex = 0, progress = 98, isPaused = False\<rparr>
       = (\<lparr>currentIndex = 1, progress = 0, isPaused = False\<rparr>, [])
   \<and> timer_tick (sample_viewer True) \<lparr>currentIndex = 1, progress = 98, isPaused = False\<rparr>
       = (\<lparr>currentIndex = 1, progress = 0, isPaused = False\<rparr>, [OnNextUser])
   \<and> timer_tick (sample_viewer False) \<lparr>currentIndex = 1, progress = 98, isPaused = False\<rparr>
       = (\<lparr>currentIndex = 1, progress = 0, isPaused = False\<rparr>, [OnClose])"
  using timer_tick_advances [of "\<lparr>currentIndex = 0, progress = 98, isPaused = False\<rparr>" "sample_viewer True"]
    timer_tick_advances [of "\<lparr>currentIndex = 1, progress = 98, isPaused = False\<rparr>" "sample_viewer True"]
    timer_tick_advances [of "\<lparr>currentIndex = 1, progress = 98, isPaused = False\<rparr>" "sample_viewer False"]
  by (simp add: progress_step sample_viewer_def)

section \<open>Chat attachments: the size limit\<close>

text \<open>
  C10. A selected file of more than \<open>10 * 1024 * 1024\<close> bytes is refused inside the
  handler: the only effect is the notification, no upload and no message insert is
  requested, and the state, with its selected file, is left as it was (unset when it was
  unset). A file of at most that size becomes the pending attachment, with no effect.
\<close>

theorem handleFileSelect_size_limit:
  assumes "first_file files = Some f"
  shows "(f_size f > 10 * 1024 * 1024 \<longrightarrow>
            handleFileSelect files st = (st, [ShowToast Toast_file_too_large])
            \<and> Upload f \<notin> set (snd (handleFileSelect files st))
            \<and> (\<forall>c. InsertMessage c \<notin> set (snd (handleFileSelect files st)))
            \<and> selectedFile (fst (handleFileSelect files st)) = selectedFile st)
       \<and> (f_size f \<le> 10 * 1024 * 1024 \<longrightarrow>
            handleFileSelect files st = (st\<lparr>selectedFile := Some f\<rparr>, []))"
  using assms by (simp add: handleFileSelect_def)

theorem handleFileSelect_size_limit_witness:
  "first_file (Some [big_file]) = Some big_file
   \<and> f_size big_file > 10 * 1024 * 1024
   \<and> handleFileSelect (Some [big_file]) empty_chat = (empty_chat, [ShowToast Toast_file_too_large])
   \<and> selectedFile (fst (handleFileSelect (Some [big_file]) empty_chat)) = None
   \<and> first_file (Some [limit_file]) = Some limit_file
   \<and> f_size limit_file \<le> 10 * 1024 * 1024
   \<and> selectedFile (fst (handleFileSelect (Some [limit_file]) empty_chat)) = Some limit_file"
  using handleFileSelect_size_limit [of "Some [big_file]" big_file empty_chat]
    handleFileSelect_size_limit [of "Some [limit_file]" limit_file empty_chat]
  by (simp add: first_file_def big_file_def limit_file_def empty_chat_def)

section \<open>Story views: one row per viewer\<close>
















section \<open>Stories listing: expiry and the viewed aggregate\<close>


lemma join_story_sel [simp]:
  "s_id (join_story d s) = s_id s"
  "s_user_id (join_story d s) = s_user_id s"
  "s_expires_at (join_story d s) = s_expires_at s"
  "s_user (join_story d s) = map_option story_user_of (profile_of d (s_user_id s))"
  by (simp_all add: join_story_def story.defs story_row.defs)

lemma active_join_story [simp]: "active t (join_story d s) = active t s"
  by (simp add: active_def)

lemma profile_of_id: "profile_of d k = Some p \<Longrightarrow> p_id p = k"
  by (auto simp: profile_of_def find_Some_iff)

lemma join_story_user_id:
  assumes "s_user (join_story d s) = Some u"
  shows "su_id u = s_user_id s"
proof -
  from assms obtain p where p: "profile_of d (s_user_id s) = Some p" and u: "u = story_user_of p"
    by auto
  from p have "p_id p = s_user_id s"
    by (auto simp: profile_of_def find_Some_iff)
  with u show ?thesis by (simp add: story_user_of_def)
qed

lemma select_stories_set:
  "select_stories True t d = Some rows \<Longrightarrow>
   set rows = join_story d ` {s \<in> set (stories d). active t s}"
  by (auto simp: select_stories_def select_rows_def)

lemma select_stories_Some:
  "select_stories ok t d = Some rows \<Longrightarrow>
   ok \<and> rows = map (join_story d) (sort_key (\<lambda>s. - s_created_at s) (filter (active t) (stories d)))"
  by (auto simp: select_stories_def select_rows_def split: if_splits)

lemma map_of_map_upd:
  "map_of (map (\<lambda>(k, g). if k = a then (k, f g) else (k, g)) xs) k =
   (if k = a then map_option f (map_of xs k) else map_of xs k)"
  by (induction xs) auto

lemma map_fst_map_upd:
  "map fst (map (\<lambda>(k, g). if k = a then (k, f g) else (k, g)) xs) = map fst xs"
  by (induction xs) auto

lemma group_add_keys:
  "map fst (group_add x acc) =
   (case s_user x of
      None \<Rightarrow> map fst acc
    | Some u \<Rightarrow> if s_user_id x \<in> set (map fst acc) then map fst acc else map fst acc @ [s_user_id x])"
  by (auto simp: group_add_def Let_def map_fst_map_upd map_of_eq_None_iff split: option.splits)

lemma group_add_distinct:
  "distinct (map fst acc) \<Longrightarrow> distinct (map fst (group_add x acc))"
  by (auto simp: group_add_keys split: option.splits)

lemma fold_group_add_distinct:
  "distinct (map fst acc) \<Longrightarrow> distinct (map fst (fold group_add xs acc))"
  by (induction xs arbitrary: acc) (simp_all add: group_add_distinct)

lemma stories_for_group_add:
  "stories_for k (group_add x acc) =
   stories_for k acc @ (if s_user x \<noteq> None \<and> s_user_id x = k then [x] else [])"
  by (auto simp: stories_for_def group_add_def Let_def map_of_map_upd map_of_append
      split: option.splits)

lemma stories_for_fold:
  "stories_for k (fold group_add xs acc) =
   stories_for k acc @ filter (\<lambda>s. s_user s \<noteq> None \<and> s_user_id s = k) xs"
  by (induction xs arbitrary: acc) (simp_all add: stories_for_group_add)

lemma group_add_user:
  assumes "\<forall>(k, g) \<in> set acc. su_id (gs_user g) = k"
    and "\<forall>u. s_user x = Some u \<longrightarrow> su_id u = s_user_id x"
  shows "\<forall>(k, g) \<in> set (group_add x acc). su_id (gs_user g) = k"
  using assms by (auto simp: group_add_def Let_def split: option.splits if_splits)

lemma fold_group_add_user:
  assumes "\<forall>(k, g) \<in> set acc. su_id (gs_user g) = k"
    and "\<forall>x \<in> set xs. \<forall>u. s_user x = Some u \<longrightarrow> su_id u = s_user_id x"
  shows "\<forall>(k, g) \<in> set (fold group_add xs acc). su_id (gs_user g) = k"
  using assms
proof (induction xs arbitrary: acc)
  case Nil
  then show ?case by simp
next
  case (Cons x xs)
  have "\<forall>(k, g) \<in> set (group_add x acc). su_id (gs_user g) = k"
    using Cons.prems by (intro group_add_user) auto
  then show ?case using Cons by simp
qed

lemma group_add_nonempty:
  assumes "\<forall>(k, g) \<in> set acc. gs_stories g \<noteq> []"
  shows "\<forall>(k, g) \<in> set (group_add x acc). gs_stories g \<noteq> []"
  using assms by (auto simp: group_add_def Let_def split: option.splits if_splits)

lemma fold_group_add_nonempty:
  assumes "\<forall>(k, g) \<in> set acc. gs_stories g \<noteq> []"
  shows "\<forall>(k, g) \<in> set (fold group_add xs acc). gs_stories g \<noteq> []"
  using assms
proof (induction xs arbitrary: acc)
  case Nil
  then show ?case by simp
next
  case (Cons x xs)
  then show ?case using group_add_nonempty [of acc x] by simp
qed

text \<open>What the grouping of joined rows holds.\<close>

lemma grouped_entry:
  assumes "(k, g) \<in> set (fold group_add (map (join_story d) xs) [])"
  shows "su_id (gs_user g) = k"
    and "gs_stories g = map (join_story d) (filter (\<lambda>s. s_user_id s = k) xs)"
    and "gs_stories g \<noteq> []"
proof -
  let ?rows = "map (join_story d) xs"
  let ?G = "fold group_add ?rows []"
  have "\<forall>(k, g) \<in> set ?G. su_id (gs_user g) = k"
    by (rule fold_group_add_user) (auto simp: story_user_of_def dest: profile_of_id)
  with assms show k: "su_id (gs_user g) = k" by auto
  have "\<forall>(k, g) \<in> set ?G. gs_stories g \<noteq> []"
    by (rule fold_group_add_nonempty) simp
  with assms show ne: "gs_stories g \<noteq> []" by auto
  have "distinct (map fst ?G)" by (rule fold_group_add_distinct) simp
  with assms have "map_of ?G k = Some g" by simp
  then have g: "gs_stories g = filter (\<lambda>s. s_user s \<noteq> None \<and> s_user_id s = k) ?rows"
    using stories_for_fold [of k ?rows "[]"] by (simp add: stories_for_def)
  with ne have "\<exists>r \<in> set ?rows. s_user r \<noteq> None \<and> s_user_id r = k"
    by (simp add: filter_empty_conv)
  then have "profile_of d k \<noteq> None" by auto
  then have "filter (\<lambda>s. s_user s \<noteq> None \<and> s_user_id s = k) ?rows
      = map (join_story d) (filter (\<lambda>s. s_user_id s = k) xs)"
    by (induction xs) auto
  with g show "gs_stories g = map (join_story d) (filter (\<lambda>s. s_user_id s = k) xs)" by simp
qed


lemma mark_groups_set:
  "set (mark_groups ids G) =
   (\<lambda>(k, g). (k, g\<lparr>hasViewed := list_all (\<lambda>s. s_id s \<in> set ids) (gs_stories g)\<rparr>)) ` set G"
  by (simp add: mark_groups_def)

lemma fetchStories_success:
  "fetchStories (Some uid) t True okv d st =
     (let rows = map (join_story d) (sort_key (\<lambda>s. - s_created_at s) (filter (active t) (stories d)));
          othersStories = filter (\<lambda>s. s_user_id s \<noteq> uid) rows;
          grouped = fold group_add othersStories []
      in \<lparr>groupedStories = sort_key hasViewed (map snd
            (if othersStories \<noteq> []
             then mark_groups (case select_views okv uid (map s_id othersStories) d of
                                 None \<Rightarrow> [] | Some ids \<Rightarrow> ids) grouped
             else grouped)),
          myStories = filter (\<lambda>s. s_user_id s = uid) rows, stories_loading = False\<rparr>)"
  by (simp add: fetchStories_def select_stories_def select_rows_def Let_def)

lemma fetchStories_group:
  assumes "g \<in> set (groupedStories (fetchStories (Some uid) t True okv d st))"
  shows "\<exists>k. k \<noteq> uid \<and> su_id (gs_user g) = k
     \<and> gs_stories g = map (join_story d) (filter (\<lambda>s. s_user_id s = k)
          (filter (\<lambda>s. s_user_id s \<noteq> uid)
             (sort_key (\<lambda>s. - s_created_at s) (filter (active t) (stories d)))))
     \<and> gs_stories g \<noteq> []
     \<and> hasViewed g = list_all (\<lambda>s. s_id s \<in> set
          (case select_views okv uid (map s_id (filter (\<lambda>s. s_user_id s \<noteq> uid)
               (sort_key (\<lambda>s. - s_created_at s) (filter (active t) (stories d))))) d of
             None \<Rightarrow> [] | Some ids \<Rightarrow> ids)) (gs_stories g)"
proof -
  let ?act = "sort_key (\<lambda>s. - s_created_at s) (filter (active t) (stories d))"
  let ?oth = "filter (\<lambda>s. s_user_id s \<noteq> uid) ?act"
  let ?others = "filter (\<lambda>s. s_user_id s \<noteq> uid) (map (join_story d) ?act)"
  let ?G = "fold group_add ?others []"
  let ?ids = "case select_views okv uid (map s_id ?others) d of None \<Rightarrow> [] | Some ids \<Rightarrow> ids"
  have others: "?others = map (join_story d) ?oth"
    by (simp add: filter_map comp_def)
  have ids: "map s_id ?others = map s_id ?oth"
    by (simp add: others)
  have ne: "?others \<noteq> []"
  proof
    assume "?others = []"
    then have "groupedStories (fetchStories (Some uid) t True okv d st) = []"
      by (simp add: fetchStories_success Let_def)
    with assms show False by simp
  qed
  then have "g \<in> snd ` set (mark_groups ?ids ?G)"
    using assms by (simp add: fetchStories_success Let_def)
  then obtain k g0 where g0: "(k, g0) \<in> set ?G"
    and g: "g = g0\<lparr>hasViewed := list_all (\<lambda>s. s_id s \<in> set ?ids) (gs_stories g0)\<rparr>"
    by (auto simp: mark_groups_set)
  from g0 have in_G: "(k, g0) \<in> set (fold group_add (map (join_story d) ?oth) [])"
    by (simp only: others)
  note e = grouped_entry [OF in_G]
  from e(2,3) obtain s where "s \<in> set ?oth" "s_user_id s = k"
    by (auto simp: filter_empty_conv)
  then have "k \<noteq> uid" by auto
  with e g show ?thesis by (simp add: ids)
qed


lemma join_story_inj_id:
  assumes "distinct (map s_id xs)" "a \<in> set xs" "b \<in> set xs" "s_id a = s_id b"
  shows "a = b"
  using assms by (meson distinct_map inj_onD)

lemma fetchStories_mine_listed:
  "set (myStories (fetchStories (Some uid) t True okv d st))
     \<subseteq> join_story d ` {x \<in> set (stories d). active t x}"
proof -
  have "myStories (fetchStories (Some uid) t True okv d st) =
      filter (\<lambda>s. s_user_id s = uid)
        (map (join_story d) (sort_key (\<lambda>s. - s_created_at s) (filter (active t) (stories d))))"
    by (simp add: fetchStories_success Let_def)
  then show ?thesis by auto
qed

lemma fetchStories_group_listed:
  assumes "g \<in> set (groupedStories (fetchStories (Some uid) t True okv d st))"
  shows "set (gs_stories g) \<subseteq> join_story d ` {x \<in> set (stories d). active t x}"
proof -
  from fetchStories_group [OF assms] obtain k where
    "gs_stories g = map (join_story d) (filter (\<lambda>s. s_user_id s = k)
          (filter (\<lambda>s. s_user_id s \<noteq> uid)
             (sort_key (\<lambda>s. - s_created_at s) (filter (active t) (stories d)))))"
    by blast
  then show ?thesis by auto
qed

lemma listed_not_expired:
  assumes "distinct (map s_id (stories d))"
    and "s \<in> set (stories d)"
    and "\<not> active t s"
    and "r \<in> join_story d ` {x \<in> set (stories d). active t x}"
  shows "active t r \<and> s_id r \<noteq> s_id s"
proof -
  from assms(4) obtain x where x: "x \<in> set (stories d)" "active t x" "r = join_story d x"
    by auto
  have "s_id x \<noteq> s_id s"
  proof
    assume "s_id x = s_id s"
    then have "x = s" using join_story_inj_id [OF assms(1) x(1) assms(2)] by simp
    with x(2) assms(3) show False by simp
  qed
  with x show ?thesis by simp
qed

text \<open>
  C6. The first query succeeds and the table satisfies its primary key. A story whose
  expiry is not after the clock of the fetch, though its row is still in the table, is in
  neither list: not among the user's own stories and not in any author's group. Every
  listed story has an expiry strictly after that clock.
\<close>

theorem expired_story_not_listed:
  assumes "distinct (map s_id (stories d))"
    and "s \<in> set (stories d)"
    and "s_expires_at s = Some e"
    and "e \<le> t"
  shows "s_id s \<notin> s_id ` set (myStories (fetchStories (Some uid) t True okv d st))
     \<and> (\<forall>g \<in> set (groupedStories (fetchStories (Some uid) t True okv d st)).
           s_id s \<notin> s_id ` set (gs_stories g))
     \<and> (\<forall>r \<in> set (myStories (fetchStories (Some uid) t True okv d st)). active t r)
     \<and> (\<forall>g \<in> set (groupedStories (fetchStories (Some uid) t True okv d st)).
           \<forall>r \<in> set (gs_stories g). active t r)"
proof -
  define st' where "st' = fetchStories (Some uid) t True okv d st"
  have expired: "\<not> active t s"
    using assms(3,4) by (simp add: active_def)
  have mine: "active t r \<and> s_id r \<noteq> s_id s" if "r \<in> set (myStories st')" for r
    using that fetchStories_mine_listed [of uid t okv d st]
      listed_not_expired [OF assms(1,2) expired, of r]
    unfolding st'_def by blast
  have groups: "active t r \<and> s_id r \<noteq> s_id s"
    if "g \<in> set (groupedStories st')" "r \<in> set (gs_stories g)" for g r
    using that fetchStories_group_listed [of g uid t okv d st]
      listed_not_expired [OF assms(1,2) expired, of r]
    unfolding st'_def by blast
  have "s_id s \<notin> s_id ` set (myStories st')"
    using mine by (metis imageE)
  moreover have "\<forall>g \<in> set (groupedStories st'). s_id s \<notin> s_id ` set (gs_stories g)"
    using groups by (metis imageE)
  moreover have "\<forall>r \<in> set (myStories st'). active t r"
    using mine by simp
  moreover have "\<forall>g \<in> set (groupedStories st'). \<forall>r \<in> set (gs_stories g). active t r"
    using groups by simp
  ultimately show ?thesis unfolding st'_def by simp
qed

lemma alice_groups:
  "map (\<lambda>g. (su_id (gs_user g), map s_id (gs_stories g), hasViewed g)) (groupedStories alice_stories)
     = [(''bob'', [''s2'', ''s1''], False), (''carol'', [''s3''], True)]"
  by (simp add: alice_stories_def fetchStories_success stories_db_def empty_db_def
      sample_story_of_def sample_profile_def active_def group_add_def mark_groups_def
      select_views_def select_rows_def profile_of_def story_user_of_def Let_def)

theorem expired_story_not_listed_witness:
  "distinct (map s_id (stories stories_db))
   \<and> sample_story_of ''s0'' ''carol'' 5 90 \<in> set (stories stories_db)
   \<and> s_expires_at (sample_story_of ''s0'' ''carol'' 5 90) = Some 90
   \<and> (90::int) \<le> 100
   \<and> ''s0'' \<notin> s_id ` set (myStories alice_stories)
   \<and> ''s0'' \<notin> s_id ` set (concat (map gs_stories (groupedStories alice_stories)))
   \<and> list_all (active 100) (myStories alice_stories)
   \<and> list_all (active 100) (concat (map gs_stories (groupedStories alice_stories)))"
proof -
  have h1: "distinct (map s_id (stories stories_db))"
    by (simp add: stories_db_def empty_db_def sample_story_of_def)
  have h2: "sample_story_of ''s0'' ''carol'' 5 90 \<in> set (stories stories_db)"
    by (simp add: stories_db_def empty_db_def)
  have h3: "s_expires_at (sample_story_of ''s0'' ''carol'' 5 90) = Some 90"
    by (simp add: sample_story_of_def)
  have h4: "(90::int) \<le> 100" by simp
  have id: "s_id (sample_story_of ''s0'' ''carol'' 5 90) = ''s0''"
    by (simp add: sample_story_of_def)
  note t = expired_story_not_listed [OF h1 h2 h3 h4, of "''alice''" True no_stories,
      folded alice_stories_def, unfolded id]
  from t have "''s0'' \<notin> s_id ` set (concat (map gs_stories (groupedStories alice_stories)))"
    by auto
  moreover from t have "list_all (active 100) (concat (map gs_stories (groupedStories alice_stories)))"
    by (auto simp: list_all_iff)
  moreover from t have "list_all (active 100) (myStories alice_stories)"
    by (simp add: list_all_iff)
  ultimately show ?thesis using h1 h2 h3 t by simp
qed

lemma select_views_mem:
  assumes "x \<in> set storyIds"
  shows "x \<in> set (case select_views True uid storyIds d of None \<Rightarrow> [] | Some ids \<Rightarrow> ids) \<longleftrightarrow>
     (\<exists>v \<in> set (story_views d). sv_story_id v = x \<and> sv_viewer_id v = uid)"
proof
  assume "x \<in> set (case select_views True uid storyIds d of None \<Rightarrow> [] | Some ids \<Rightarrow> ids)"
  then show "\<exists>v \<in> set (story_views d). sv_story_id v = x \<and> sv_viewer_id v = uid"
    by (auto simp: select_views_def select_rows_def)
next
  assume "\<exists>v \<in> set (story_views d). sv_story_id v = x \<and> sv_viewer_id v = uid"
  then obtain v where "v \<in> set (story_views d)" "sv_story_id v = x" "sv_viewer_id v = uid"
    by blast
  with assms have "v \<in> {v \<in> set (story_views d). sv_viewer_id v = uid \<and> sv_story_id v \<in> set storyIds}"
    by simp
  then have "sv_story_id v \<in> sv_story_id ` {v \<in> set (story_views d).
      sv_viewer_id v = uid \<and> sv_story_id v \<in> set storyIds}"
    by (rule imageI)
  with \<open>sv_story_id v = x\<close>
  show "x \<in> set (case select_views True uid storyIds d of None \<Rightarrow> [] | Some ids \<Rightarrow> ids)"
    by (simp add: select_views_def select_rows_def)
qed

text \<open>
  C7. Both queries succeed. For every group of the listing, \<open>hasViewed\<close> is true exactly
  when each active story of the group's author has a \<^verbatim>\<open>story_views\<close> row of the current
  user; and the stories of the group are the active stories of that author.
\<close>

theorem hasViewed_iff_all_viewed:
  assumes "g \<in> set (groupedStories (fetchStories (Some uid) t True True d st))"
  shows "(hasViewed g \<longleftrightarrow>
           (\<forall>s \<in> set (stories d). active t s \<and> s_user_id s = su_id (gs_user g) \<longrightarrow>
              (\<exists>v \<in> set (story_views d). sv_story_id v = s_id s \<and> sv_viewer_id v = uid)))
     \<and> set (gs_stories g) =
         join_story d ` {s \<in> set (stories d). active t s \<and> s_user_id s = su_id (gs_user g)}"
proof -
  define oth where "oth = filter (\<lambda>s. s_user_id s \<noteq> uid)
     (sort_key (\<lambda>s. - s_created_at s) (filter (active t) (stories d)))"
  define ids where "ids = (case select_views True uid (map s_id oth) d of
     None \<Rightarrow> [] | Some ids \<Rightarrow> ids)"
  from fetchStories_group [OF assms] obtain k where k: "k \<noteq> uid" "su_id (gs_user g) = k"
    and st: "gs_stories g = map (join_story d) (filter (\<lambda>s. s_user_id s = k) oth)"
    and hv: "hasViewed g = list_all (\<lambda>s. s_id s \<in> set ids) (gs_stories g)"
    unfolding oth_def ids_def by blast
  have set_oth: "set oth = {s \<in> set (stories d). active t s \<and> s_user_id s \<noteq> uid}"
    by (auto simp: oth_def)
  have set_g: "set (gs_stories g) =
      join_story d ` {s \<in> set (stories d). active t s \<and> s_user_id s = k}"
    using k(1) by (auto simp: st set_oth)
  have viewed: "s_id r \<in> set ids \<longleftrightarrow>
      (\<exists>v \<in> set (story_views d). sv_story_id v = s_id r \<and> sv_viewer_id v = uid)"
    if "r \<in> set (gs_stories g)" for r
  proof -
    from that have "s_id r \<in> set (map s_id oth)" by (auto simp: st)
    then show ?thesis unfolding ids_def by (rule select_views_mem)
  qed
  have "hasViewed g \<longleftrightarrow>
      (\<forall>r \<in> set (gs_stories g).
         \<exists>v \<in> set (story_views d). sv_story_id v = s_id r \<and> sv_viewer_id v = uid)"
    using viewed by (simp add: hv list_all_iff)
  also have "\<dots> \<longleftrightarrow> (\<forall>s \<in> set (stories d). active t s \<and> s_user_id s = k \<longrightarrow>
      (\<exists>v \<in> set (story_views d). sv_story_id v = s_id s \<and> sv_viewer_id v = uid))"
    unfolding set_g by auto
  finally show ?thesis using set_g k(2) by simp
qed

theorem hasViewed_iff_all_viewed_witness:
  "hd (groupedStories alice_stories) \<in> set (groupedStories alice_stories)
   \<and> su_id (gs_user (hd (groupedStories alice_stories))) = ''bob''
   \<and> \<not> hasViewed (hd (groupedStories alice_stories))
   \<and> \<not> (\<forall>s \<in> set (stories stories_db). active 100 s \<and> s_user_id s = ''bob'' \<longrightarrow>
           (\<exists>v \<in> set (story_views stories_db). sv_story_id v = s_id s \<and> sv_viewer_id v = ''alice''))
   \<and> last (groupedStories alice_stories) \<in> set (groupedStories alice_stories)
   \<and> su_id (gs_user (last (groupedStories alice_stories))) = ''carol''
   \<and> hasViewed (last (groupedStories alice_stories))
   \<and> list_all (\<lambda>s. active 100 s \<and> s_user_id s = ''carol'' \<longrightarrow>
           (\<exists>v \<in> set (story_views stories_db). sv_story_id v = s_id s \<and> sv_viewer_id v = ''alice''))
        (stories stories_db)"
proof -
  from alice_groups obtain g1 g2 where G: "groupedStories alice_stories = [g1, g2]"
    and g1: "su_id (gs_user g1) = ''bob''" "\<not> hasViewed g1"
    and g2: "su_id (gs_user g2) = ''carol''" "hasViewed g2"
    by (auto simp: map_eq_Cons_conv)
  have m1: "g1 \<in> set (groupedStories (fetchStories (Some ''alice'') 100 True True stories_db no_stories))"
    and m2: "g2 \<in> set (groupedStories (fetchStories (Some ''alice'') 100 True True stories_db no_stories))"
    using G by (simp_all add: alice_stories_def)
  from hasViewed_iff_all_viewed [OF m1] hasViewed_iff_all_viewed [OF m2] g1 g2 G
  show ?thesis by (simp add: list_all_iff)
qed

section \<open>Contacts: conflicts and the merged list\<close>

lemma filter_same_pair_ne: "list_ex (same_pair uid cid) xs \<longleftrightarrow> filter (same_pair uid cid) xs \<noteq> []"
  by (simp add: list_ex_iff filter_empty_conv)

lemma insert_contact_conflict:
  assumes "list_ex (same_pair uid cid) (contacts d)"
  shows "insert_contact rq uid cid d =
     (case fault rq of Some c \<Rightarrow> Inl (GatewayError c) | None \<Rightarrow> Inl (GatewayError unique_violation))"
  using assms by (auto simp: insert_contact_def list_ex_iff split: option.splits)

text \<open>
  C4. The ordered pair \<open>(uid, cid)\<close> already has a row, and the table satisfies its
  \<^verbatim>\<open>UNIQUE(user_id, contact_id)\<close>. A further request for the pair leaves the tables as
  they are, with exactly one row for the pair, and does not call \<^verbatim>\<open>onAdded\<close>. When the
  request reaches the table, the insert fails with code 23505 and the handler shows the
  "already requested" notification, which is not the destructive error notification.
\<close>

theorem duplicate_request_conflict:
  assumes "list_ex (same_pair uid cid) (contacts d)"
    and "count_pair uid cid d \<le> 1"
  shows "sr_db (handleSendRequest (Some uid) cid rq d st) = d
     \<and> count_pair uid cid (sr_db (handleSendRequest (Some uid) cid rq d st)) = 1
     \<and> \<not> sr_onAdded (handleSendRequest (Some uid) cid rq d st)
     \<and> (fault rq = None \<longrightarrow>
          insert_contact rq uid cid d = Inl (GatewayError ''23505'')
          \<and> sr_toast (handleSendRequest (Some uid) cid rq d st) = Some Toast_already_requested
          \<and> \<not> destructive Toast_already_requested)"
proof -
  have one: "count_pair uid cid d = 1"
    using assms by (simp add: count_pair_def filter_same_pair_ne) (metis One_nat_def le_Suc_eq le_zero_eq length_0_conv)
  show ?thesis
    using one by (simp add: handleSendRequest_def insert_contact_conflict [OF assms(1)]
        unique_violation_def split: option.splits)
qed


theorem duplicate_request_conflict_witness:
  "list_ex (same_pair ''alice'' ''bob'') (contacts one_way_db)
   \<and> count_pair ''alice'' ''bob'' one_way_db \<le> 1
   \<and> sr_db (handleSendRequest (Some ''alice'') ''bob'' (request_with ''k9'') one_way_db empty_dialog)
       = one_way_db
   \<and> count_pair ''alice'' ''bob''
        (sr_db (handleSendRequest (Some ''alice'') ''bob'' (request_with ''k9'') one_way_db empty_dialog)) = 1
   \<and> fault (request_with ''k9'') = None
   \<and> sr_toast (handleSendRequest (Some ''alice'') ''bob'' (request_with ''k9'') one_way_db empty_dialog)
       = Some Toast_already_requested"
proof -
  have c: "contacts one_way_db =
      [\<lparr>ct_id = ''k1'', ct_user_id = ''alice'', ct_contact_id = ''bob'', ct_status = ''accepted''\<rparr>]"
    by (simp add: one_way_db_def handleAccept_def update_contact_status_def handleSendRequest_def
        insert_contact_def people_db_def empty_db_def request_with_def reached_def)
  have h1: "list_ex (same_pair ''alice'' ''bob'') (contacts one_way_db)"
    by (simp add: c same_pair_def)
  have h2: "count_pair ''alice'' ''bob'' one_way_db \<le> 1"
    by (simp add: count_pair_def c same_pair_def)
  have h3: "fault (request_with ''k9'') = None"
    by (simp add: request_with_def)
  have h5: "count_pair ''alice'' ''bob'' one_way_db = 1"
    by (simp add: count_pair_def c same_pair_def)
  from duplicate_request_conflict [OF h1 h2, of "request_with ''k9''" empty_dialog] h1 h2 h3 h5
  show ?thesis by simp
qed

lemma with_contact_profile_sel [simp]:
  "ct_user_id (with_contact_profile d c) = ct_user_id c"
  "ct_contact_id (with_contact_profile d c) = ct_contact_id c"
  "ct_status (with_contact_profile d c) = ct_status c"
  "contact_profile (with_contact_profile d c) = profile_of d (ct_contact_id c)"
  by (simp_all add: with_contact_profile_def contact.defs contact_row.defs)

lemma with_user_profile_sel [simp]:
  "ct_user_id (with_user_profile d c) = ct_user_id c"
  "ct_contact_id (with_user_profile d c) = ct_contact_id c"
  "ct_status (with_user_profile d c) = ct_status c"
  "user_profile (with_user_profile d c) = profile_of d (ct_user_id c)"
  by (simp_all add: with_user_profile_def contact.defs contact_row.defs)

lemma profile_id_eq:
  "(\<exists>p. profile_of d k = Some p \<and> p_id p = x) \<longleftrightarrow> k = x \<and> profile_of d x \<noteq> None"
  by (cases "profile_of d k") (auto dest: profile_of_id)

text \<open>The list of accepted contacts when both queries return data.\<close>

lemma fetchContacts_accepted:
  assumes "ok_acceptedAsUser ok" "ok_acceptedAsContact ok"
  shows "cs_contacts (fetchContacts (Some me) ok d st) =
     map (with_contact_profile d)
       (filter (\<lambda>c. ct_user_id c = me \<and> ct_status c = ''accepted'') (contacts d)) @
     map (\<lambda>c. c\<lparr>contact_profile := user_profile c\<rparr>)
       (map (with_user_profile d)
          (filter (\<lambda>c. ct_contact_id c = me \<and> ct_status c = ''accepted'') (contacts d)))"
  using assms by (simp add: fetchContacts_def select_rows_def or_empty_def Let_def)

lemma count_profile_fetchContacts:
  assumes "ok_acceptedAsUser ok" "ok_acceptedAsContact ok" "profile_of d x \<noteq> None"
  shows "count_profile x (cs_contacts (fetchContacts (Some me) ok d st)) =
     length (filter (\<lambda>c. same_pair me x c \<and> ct_status c = ''accepted'') (contacts d)) +
     length (filter (\<lambda>c. same_pair x me c \<and> ct_status c = ''accepted'') (contacts d))"
proof -
  have a: "length (filter (\<lambda>r. map_option p_id (contact_profile r) = Some x)
        (map (with_contact_profile d) cs)) =
      length (filter (\<lambda>c. ct_contact_id c = x) cs)" for cs
    using assms(3) by (simp add: filter_map comp_def profile_id_eq)
  have b: "length (filter (\<lambda>r. map_option p_id (contact_profile r) = Some x)
        (map (\<lambda>c. c\<lparr>contact_profile := user_profile c\<rparr>) (map (with_user_profile d) cs))) =
      length (filter (\<lambda>c. ct_user_id c = x) cs)" for cs
    using assms(3) by (simp add: filter_map comp_def profile_id_eq)
  have c: "filter (\<lambda>c. ct_contact_id c = x)
        (filter (\<lambda>c. ct_user_id c = me \<and> ct_status c = ''accepted'') cs) =
      filter (\<lambda>c. same_pair me x c \<and> ct_status c = ''accepted'') cs" for cs
    by (induction cs) (auto simp: same_pair_def)
  have e: "filter (\<lambda>c. ct_user_id c = x)
        (filter (\<lambda>c. ct_contact_id c = me \<and> ct_status c = ''accepted'') cs) =
      filter (\<lambda>c. same_pair x me c \<and> ct_status c = ''accepted'') cs" for cs
    by (induction cs) (auto simp: same_pair_def)
  show ?thesis
    unfolding count_profile_def fetchContacts_accepted [OF assms(1,2)] filter_append length_append
    by (simp only: a b c e)
qed

lemma unique_pair_count:
  assumes "distinct (map (\<lambda>c. (ct_user_id c, ct_contact_id c)) cs)"
    and "c \<in> set cs" "same_pair a b c" "P c"
  shows "length (filter (\<lambda>c. same_pair a b c \<and> P c) cs) = 1"
  using assms
proof (induction cs)
  case Nil
  then show ?case by simp
next
  case (Cons x cs)
  show ?case
  proof (cases "x = c")
    case True
    have "filter (\<lambda>c. same_pair a b c \<and> P c) cs = []"
      using Cons.prems True by (auto simp: filter_empty_conv same_pair_def image_iff)
    then show ?thesis using Cons.prems True by simp
  next
    case False
    then have "c \<in> set cs" using Cons.prems by simp
    moreover have "\<not> same_pair a b x"
      using Cons.prems \<open>c \<in> set cs\<close> by (auto simp: same_pair_def image_iff)
    ultimately show ?thesis using Cons by simp
  qed
qed

text \<open>
  C3, amended. The table satisfies \<^verbatim>\<open>UNIQUE(user_id, contact_id)\<close>, both parties have a
  profile, and both queries for accepted rows return data. For an accepted row from \<open>a\<close>
  to \<open>b\<close> with no accepted row from \<open>b\<close> to \<open>a\<close>, the list fetched in the session of
  \<open>a\<close> shows the profile of \<open>b\<close> exactly once, and the list fetched in the session of
  \<open>b\<close> shows the profile of \<open>a\<close> exactly once.
\<close>

theorem accepted_contact_listed_once:
  assumes "distinct (map (\<lambda>c. (ct_user_id c, ct_contact_id c)) (contacts d))"
    and "c \<in> set (contacts d)"
    and "ct_user_id c = a" and "ct_contact_id c = b" and "ct_status c = ''accepted''"
    and "\<not> list_ex (\<lambda>c. same_pair b a c \<and> ct_status c = ''accepted'') (contacts d)"
    and "profile_of d a \<noteq> None" and "profile_of d b \<noteq> None"
    and "ok_acceptedAsUser ok" and "ok_acceptedAsContact ok"
  shows "count_profile b (cs_contacts (fetchContacts (Some a) ok d st)) = 1
     \<and> count_profile a (cs_contacts (fetchContacts (Some b) ok d st')) = 1"
proof -
  have fwd: "length (filter (\<lambda>c. same_pair a b c \<and> ct_status c = ''accepted'') (contacts d)) = 1"
    using unique_pair_count [OF assms(1,2), of a b "\<lambda>c. ct_status c = ''accepted''"] assms(3-5)
    by (simp add: same_pair_def)
  have bwd: "length (filter (\<lambda>c. same_pair b a c \<and> ct_status c = ''accepted'') (contacts d)) = 0"
    using assms(6) by (simp add: list_ex_iff filter_empty_conv)
  show ?thesis
    by (simp add: count_profile_fetchContacts [OF assms(9,10)] assms(7,8) fwd bwd)
qed

theorem accepted_contact_listed_once_witness:
  "distinct (map (\<lambda>c. (ct_user_id c, ct_contact_id c)) (contacts one_way_db))
   \<and> \<lparr>ct_id = ''k1'', ct_user_id = ''alice'', ct_contact_id = ''bob'', ct_status = ''accepted''\<rparr>
       \<in> set (contacts one_way_db)
   \<and> \<not> list_ex (\<lambda>c. same_pair ''bob'' ''alice'' c \<and> ct_status c = ''accepted'') (contacts one_way_db)
   \<and> profile_of one_way_db ''alice'' \<noteq> None
   \<and> profile_of one_way_db ''bob'' \<noteq> None
   \<and> ok_acceptedAsUser all_reads
   \<and> ok_acceptedAsContact all_reads
   \<and> count_profile ''bob'' (cs_contacts (fetchContacts (Some ''alice'') all_reads one_way_db no_contacts)) = 1
   \<and> count_profile ''alice'' (cs_contacts (fetchContacts (Some ''bob'') all_reads one_way_db no_contacts)) = 1"
proof -
  let ?c = "\<lparr>ct_id = ''k1'', ct_user_id = ''alice'', ct_contact_id = ''bob'', ct_status = ''accepted''\<rparr>"
  have c: "contacts one_way_db = [?c]"
    by (simp add: one_way_db_def handleAccept_def update_contact_status_def handleSendRequest_def
        insert_contact_def people_db_def empty_db_def request_with_def reached_def)
  have p: "profiles one_way_db =
      [sample_profile ''alice'', sample_profile ''bob'', sample_profile ''carol'']"
    by (simp add: one_way_db_def handleAccept_def update_contact_status_def handleSendRequest_def
        insert_contact_def people_db_def empty_db_def request_with_def reached_def)
  have h1: "distinct (map (\<lambda>c. (ct_user_id c, ct_contact_id c)) (contacts one_way_db))"
    by (simp add: c)
  have h2: "?c \<in> set (contacts one_way_db)"
    by (simp add: c)
  have h6: "\<not> list_ex (\<lambda>c. same_pair ''bob'' ''alice'' c \<and> ct_status c = ''accepted'') (contacts one_way_db)"
    by (simp add: c same_pair_def)
  have h7: "profile_of one_way_db ''alice'' \<noteq> None"
    and h8: "profile_of one_way_db ''bob'' \<noteq> None"
    by (simp_all add: profile_of_def p sample_profile_def)
  have h9: "ok_acceptedAsUser all_reads" and h10: "ok_acceptedAsContact all_reads"
    by (simp_all add: all_reads_def)
  from accepted_contact_listed_once [OF h1 h2 _ _ _ h6 h7 h8 h9 h10, of no_contacts no_contacts]
    h1 h2 h6 h7 h8 h9 h10
  show ?thesis by simp
qed

text \<open>
  C3, as stated, fails. The constraint is on the ordered pair, and the merge of the two
  directions is a concatenation: when Alice and Bob have each asked the other and each
  request was accepted, Alice's list shows Bob's profile twice.
\<close>

theorem accepted_both_ways_listed_twice:
  "count_profile ''bob'' (cs_contacts (fetchContacts (Some ''alice'') all_reads crossed_db no_contacts)) = 2"
proof -
  have c: "contacts crossed_db =
      [\<lparr>ct_id = ''k1'', ct_user_id = ''alice'', ct_contact_id = ''bob'', ct_status = ''accepted''\<rparr>,
       \<lparr>ct_id = ''k2'', ct_user_id = ''bob'', ct_contact_id = ''alice'', ct_status = ''accepted''\<rparr>]"
    by (simp add: crossed_db_def handleAccept_def update_contact_status_def handleSendRequest_def
        insert_contact_def people_db_def empty_db_def request_with_def reached_def same_pair_def)
  have p: "profiles crossed_db =
      [sample_profile ''alice'', sample_profile ''bob'', sample_profile ''carol'']"
    by (simp add: crossed_db_def handleAccept_def update_contact_status_def handleSendRequest_def
        insert_contact_def people_db_def empty_db_def request_with_def reached_def same_pair_def)
  show ?thesis
    by (simp add: count_profile_def fetchContacts_def select_rows_def or_empty_def Let_def
        all_reads_def c p profile_of_def sample_profile_def)
qed

section \<open>Messages: the reads as shipped\<close>






section \<open>Conversations: creation as shipped\<close>

text \<open>What the client computes for the member rows: one row per user, the creator once
  and as the only admin.\<close>

lemma new_Set_fold:
  assumes "distinct acc"
  shows "distinct (fold (\<lambda>x acc. if x \<in> set acc then acc else acc @ [x]) xs acc)
     \<and> set (fold (\<lambda>x acc. if x \<in> set acc then acc else acc @ [x]) xs acc) = set acc \<union> set xs
     \<and> prefix acc (fold (\<lambda>x acc. if x \<in> set acc then acc else acc @ [x]) xs acc)"
  using assms
proof (induction xs arbitrary: acc)
  case Nil
  then show ?case by simp
next
  case (Cons x xs)
  show ?case
  proof (cases "x \<in> set acc")
    case True
    then show ?thesis using Cons.IH [OF Cons.prems] by auto
  next
    case False
    then have d: "distinct (acc @ [x])" using Cons.prems by simp
    have "prefix acc (fold (\<lambda>x acc. if x \<in> set acc then acc else acc @ [x]) xs (acc @ [x]))"
      using Cons.IH [OF d] by (meson append_prefixD)
    then show ?thesis using Cons.IH [OF d] False by auto
  qed
qed

lemma new_Set_distinct: "distinct (new_Set xs)"
  using new_Set_fold [of "[]" xs] by (simp add: new_Set_def)

lemma new_Set_set: "set (new_Set xs) = set xs"
  using new_Set_fold [of "[]" xs] by (simp add: new_Set_def)

lemma new_Set_Cons: "\<exists>rest. new_Set (x # xs) = x # rest"
proof -
  have "prefix [x] (new_Set (x # xs))"
    using new_Set_fold [of "[x]" xs] by (simp add: new_Set_def)
  then show ?thesis by (auto simp: prefix_def)
qed

lemma distinct_count_list_one: "distinct xs \<Longrightarrow> x \<in> set xs \<Longrightarrow> count_list xs x = 1"
  by (induction xs) (auto simp: count_list_0_iff)

lemma new_members_user_ids:
  "map cm_user_id (new_members cid uid memberIds) = new_Set (uid # memberIds)"
  by (simp add: new_members_def comp_def)

lemma new_members_dedup:
  "distinct (map cm_user_id (new_members cid uid memberIds))
   \<and> set (map cm_user_id (new_members cid uid memberIds)) = insert uid (set memberIds)
   \<and> count_list (map cm_user_id (new_members cid uid memberIds)) uid = 1"
proof -
  have d: "distinct (new_Set (uid # memberIds))" by (rule new_Set_distinct)
  have s: "set (new_Set (uid # memberIds)) = insert uid (set memberIds)"
    by (simp add: new_Set_set)
  have "count_list (new_Set (uid # memberIds)) uid = 1"
    using d s by (intro distinct_count_list_one) auto
  with d s show ?thesis by (simp add: new_members_user_ids)
qed

text \<open>The first write of \<^verbatim>\<open>createConversation\<close> is refused for every signed-in user, and
  so is the first read of \<^verbatim>\<open>fetchConversations\<close>.\<close>

lemma insert_conversation_refused:
  "insert_conversation rq uid isGroup name d =
     Inl (GatewayError (case fault rq of Some c \<Rightarrow> c | None \<Rightarrow> ''42P17''))"
  by (simp add: insert_conversation_def shipped_select_policies split: option.splits)

lemma createConversation_refused:
  "createConversation (Some uid) memberIds isGroup name rq_conv rq_members ok d st =
     (d, st, Inl (GatewayError (case fault rq_conv of Some c \<Rightarrow> c | None \<Rightarrow> ''42P17'')))"
  by (simp add: createConversation_def insert_conversation_refused)

lemma fetchConversations_refused:
  "uc_conversations (fetchConversations user ok d st) = []"
  by (simp add: fetchConversations_def select_from_refused split: option.splits)

text \<open>
  C1, on the tables and policies as shipped. Alice, signed in, creates a one-to-one
  conversation with Carol, and her request reaches the gateway. The insert of the
  conversation is refused with error 42P17: its \<^verbatim>\<open>RETURNING\<close> has to pass the
  \<^verbatim>\<open>SELECT\<close> policy of \<^verbatim>\<open>conversations\<close>, which reads \<^verbatim>\<open>conversation_members\<close>,
  whose own policy reads \<^verbatim>\<open>conversation_members\<close> again. \<^verbatim>\<open>createConversation\<close>
  returns that error; no conversation row and no member row is added, the hook's list is
  untouched, and the lists that Alice and Carol fetch afterwards are empty.
\<close>

theorem createConversation_one_to_one_refused:
  "fault (request_with ''c2'') = None
   \<and> alice_creates reached = (chat_db, no_conversations, Inl (GatewayError ''42P17''))
   \<and> uc_conversations (fetchConversations (Some ''alice'') all_conv_reads
        (fst (alice_creates reached)) no_conversations) = []
   \<and> uc_conversations (fetchConversations (Some ''carol'') all_conv_reads
        (fst (alice_creates reached)) no_conversations) = []"
  by (simp add: alice_creates_def createConversation_refused fetchConversations_refused
      request_with_def)

text \<open>
  C2, on the tables and policies as shipped. Alice creates a group with Carol and lists
  herself among the invitees. The client's deduplicated member list is Alice, then Carol,
  but the member rows are never sent: the insert of the conversation, the first of the
  two writes, is refused with error 42P17, \<^verbatim>\<open>createConversation\<close> returns that error,
  and the tables hold neither the conversation nor a new member row.
\<close>

theorem createConversation_members_never_sent:
  "fault (request_with ''c2'') = None
   \<and> map cm_user_id (new_members ''c2'' ''alice'' [''alice'', ''carol'', ''alice''])
       = [''alice'', ''carol'']
   \<and> alice_creates_group = (chat_db, no_conversations, Inl (GatewayError ''42P17''))
   \<and> conversations (fst alice_creates_group) = conversations chat_db
   \<and> conversation_members (fst alice_creates_group) = conversation_members chat_db"
  by (simp add: alice_creates_group_def createConversation_refused request_with_def
      new_members_def new_Set_def)

end
